theory Spec2Isabelle
  imports Complex_Main "HOL-Library.AList"
begin

section \<open>JavaScript values\<close>

text \<open>
  The extension is TypeScript running in a browser service worker.  Strings are modelled
  as \<open>string\<close>, the integer counters and tab ids as \<open>nat\<close> and \<open>int\<close>, and the
  numbers of the backoff computation as \<open>jsnum\<close>: a real, the two infinities or NaN.
  Finite results are taken exactly (rounding to the nearest double is not modelled);
  a result whose magnitude reaches \<open>2 ^ 1024\<close> becomes an infinity, as in IEEE 754.
\<close>

subsection \<open>Strings: \<open>startsWith\<close>, \<open>includes\<close>, \<open>trim\<close>\<close>

fun startsWith :: "string \<Rightarrow> string \<Rightarrow> bool" where
  "startsWith s [] = True"
| "startsWith [] (c # p) = False"
| "startsWith (d # s) (c # p) = (d = c \<and> startsWith s p)"

fun includes_str :: "string \<Rightarrow> string \<Rightarrow> bool" where
  "includes_str [] p = (p = [])"
| "includes_str (d # s) p = (startsWith (d # s) p \<or> includes_str s p)"

definition isWhiteSpace :: "char \<Rightarrow> bool" where
  "isWhiteSpace c = (c = CHR '' '' \<or> c = CHR 0x09 \<or> c = CHR 0x0A \<or> c = CHR 0x0B
     \<or> c = CHR 0x0C \<or> c = CHR 0x0D)"

definition trim :: "string \<Rightarrow> string" where
  "trim s = rev (dropWhile isWhiteSpace (rev (dropWhile isWhiteSpace s)))"

subsection \<open>Decimal digits: \<open>String(n)\<close> and \<open>Number.parseInt(s, 10)\<close>\<close>

definition digit_char :: "nat \<Rightarrow> char" where
  "digit_char d = ''0123456789'' ! d"

definition isDigit :: "char \<Rightarrow> bool" where
  "isDigit c = (48 \<le> (of_char c :: nat) \<and> (of_char c :: nat) \<le> 57)"

definition digit_val :: "char \<Rightarrow> nat" where
  "digit_val c = of_char c - 48"

fun dec :: "nat \<Rightarrow> string" where
  "dec n = (if n < 10 then [digit_char n] else dec (n div 10) @ [digit_char (n mod 10)])"

declare dec.simps [simp del]

text \<open>\<open>String(n)\<close> for an integer-valued number below \<open>10 ^ 21\<close> in magnitude.\<close>

definition String_int :: "int \<Rightarrow> string" where
  "String_int n = (if n < 0 then CHR ''-'' # dec (nat (- n)) else dec (nat n))"

definition digits_value :: "string \<Rightarrow> nat" where
  "digits_value ds = foldl (\<lambda>acc c. acc * 10 + digit_val c) 0 ds"

text \<open>
  \<open>Number.parseInt(s, 10)\<close>: leading white space is skipped, one sign is read, then
  the longest run of decimal digits; no digit gives NaN, here \<open>None\<close>.  The value is
  kept as an unbounded integer: the callers only compare it with 0 and 65535, and the
  rounding of a long digit string to a double (or to Infinity, which
  \<open>Number.isFinite\<close> rejects) does not change those comparisons.
\<close>

definition parseInt10 :: "string \<Rightarrow> int option" where
  "parseInt10 s =
     (let t = dropWhile isWhiteSpace s;
          neg = (case t of [] \<Rightarrow> False | c # r \<Rightarrow> c = CHR ''-'');
          u = (case t of [] \<Rightarrow> [] | c # r \<Rightarrow> if c = CHR ''-'' \<or> c = CHR ''+'' then r else t);
          ds = takeWhile isDigit u
      in if ds = [] then None
         else Some (if neg then - int (digits_value ds) else int (digits_value ds)))"

text \<open>
  A value read from \<open>chrome.storage.local\<close> or from the port input field: absent, a
  string, or an integer-valued number (the options page stores the port as the number
  \<open>clampPort\<close> returned).
\<close>

datatype js_value = Undefined | JsString string | JsInt int

text \<open>\<open>String(value || '')\<close>: \<open>undefined\<close>, the empty string and 0 are falsy.\<close>

definition String_or_empty :: "js_value \<Rightarrow> string" where
  "String_or_empty v =
     (case v of
        Undefined \<Rightarrow> []
      | JsString s \<Rightarrow> s
      | JsInt n \<Rightarrow> if n = 0 then [] else String_int n)"

subsection \<open>Numbers with infinities and NaN\<close>

datatype jsnum = Num real | PosInf | NegInf | NaN

definition double_limit :: real where
  "double_limit = 2 ^ 1024"

definition overflow :: "real \<Rightarrow> jsnum" where
  "overflow r =
     (if double_limit \<le> r then PosInf else if r \<le> - double_limit then NegInf else Num r)"

definition isFinite :: "jsnum \<Rightarrow> bool" where
  "isFinite x = (case x of Num v \<Rightarrow> True | _ \<Rightarrow> False)"

fun js_mul :: "jsnum \<Rightarrow> jsnum \<Rightarrow> jsnum" where
  "js_mul NaN y = NaN"
| "js_mul x NaN = NaN"
| "js_mul (Num a) (Num b) = overflow (a * b)"
| "js_mul (Num a) PosInf = (if a = 0 then NaN else if 0 < a then PosInf else NegInf)"
| "js_mul (Num a) NegInf = (if a = 0 then NaN else if 0 < a then NegInf else PosInf)"
| "js_mul PosInf (Num b) = (if b = 0 then NaN else if 0 < b then PosInf else NegInf)"
| "js_mul NegInf (Num b) = (if b = 0 then NaN else if 0 < b then NegInf else PosInf)"
| "js_mul PosInf PosInf = PosInf"
| "js_mul PosInf NegInf = NegInf"
| "js_mul NegInf PosInf = NegInf"
| "js_mul NegInf NegInf = PosInf"

fun js_add :: "jsnum \<Rightarrow> jsnum \<Rightarrow> jsnum" where
  "js_add NaN y = NaN"
| "js_add x NaN = NaN"
| "js_add (Num a) (Num b) = overflow (a + b)"
| "js_add PosInf NegInf = NaN"
| "js_add NegInf PosInf = NaN"
| "js_add PosInf y = PosInf"
| "js_add x PosInf = PosInf"
| "js_add NegInf y = NegInf"
| "js_add x NegInf = NegInf"

fun js_min :: "jsnum \<Rightarrow> jsnum \<Rightarrow> jsnum" where
  "js_min NaN y = NaN"
| "js_min x NaN = NaN"
| "js_min NegInf y = NegInf"
| "js_min x NegInf = NegInf"
| "js_min PosInf y = y"
| "js_min x PosInf = x"
| "js_min (Num a) (Num b) = Num (min a b)"

fun js_max :: "jsnum \<Rightarrow> jsnum \<Rightarrow> jsnum" where
  "js_max NaN y = NaN"
| "js_max x NaN = NaN"
| "js_max PosInf y = PosInf"
| "js_max x PosInf = PosInf"
| "js_max NegInf y = y"
| "js_max x NegInf = x"
| "js_max (Num a) (Num b) = Num (max a b)"

text \<open>\<open>2 ** x\<close>.\<close>

fun js_pow2 :: "jsnum \<Rightarrow> jsnum" where
  "js_pow2 (Num x) = overflow (2 powr x)"
| "js_pow2 PosInf = PosInf"
| "js_pow2 NegInf = Num 0"
| "js_pow2 NaN = NaN"

section \<open>background-utils.ts\<close>

record ReconnectOptions =
  baseMs :: "jsnum option"
  maxMs :: "jsnum option"
  jitterMs :: "jsnum option"

text \<open>\<open>Number.isFinite(x) ? x : d\<close> for an optional field \<open>x\<close>.\<close>

definition finiteOr :: "jsnum option \<Rightarrow> jsnum \<Rightarrow> jsnum" where
  "finiteOr x d = (case x of None \<Rightarrow> d | Some v \<Rightarrow> if isFinite v then v else d)"

text \<open>
  \<open>reconnectDelayMs(attempt, opts)\<close>.  \<open>backoffMs\<close> is its local constant
  \<open>backoff\<close>; the last argument of \<open>reconnectDelayMs\<close> is the number that the
  random source returns (\<open>opts.random\<close> when it is a function, \<open>Math.random\<close>
  otherwise).
\<close>

definition backoffMs :: "jsnum \<Rightarrow> ReconnectOptions \<Rightarrow> jsnum" where
  "backoffMs attempt opts =
     (let base = finiteOr (baseMs opts) (Num 1000);
          maxv = finiteOr (maxMs opts) (Num 30000);
          safeAttempt = js_max (Num 0) (if isFinite attempt then attempt else Num 0)
      in js_min (js_mul base (js_pow2 safeAttempt)) maxv)"

definition reconnectDelayMs :: "jsnum \<Rightarrow> ReconnectOptions \<Rightarrow> jsnum \<Rightarrow> jsnum" where
  "reconnectDelayMs attempt opts rnd =
     (let jitter = finiteOr (jitterMs opts) (Num 1000);
          backoff = backoffMs attempt opts
      in js_add backoff (js_mul (js_max (Num 0) jitter) rnd))"

definition defaultOptions :: ReconnectOptions where
  "defaultOptions = \<lparr>baseMs = None, maxMs = None, jitterMs = None\<rparr>"

text \<open>
  \<open>isRetryableReconnectError(err)\<close>: an error is its message;
  \<open>buildRelayWsUrl\<close> throws the only message that is not retryable.
\<close>

definition missingTokenMessage :: string where
  "missingTokenMessage =
     ''Missing gatewayToken in extension settings (chrome.storage.local.gatewayToken)''"

definition isRetryableReconnectError :: "string \<Rightarrow> bool" where
  "isRetryableReconnectError message =
     (if includes_str message ''Missing gatewayToken'' then False else True)"

definition isSkippableUrl :: "string option \<Rightarrow> bool" where
  "isSkippableUrl u =
     (case u of
        None \<Rightarrow> True
      | Some s \<Rightarrow>
          if s = [] then True
          else startsWith s ''chrome://'' \<or> startsWith s ''chrome-extension://''
             \<or> startsWith s ''about:'' \<or> startsWith s ''devtools://'')"

section \<open>Relay port setting (background.ts, options.ts)\<close>

definition DEFAULT_PORT :: int where
  "DEFAULT_PORT = 18792"

definition getRelayPort :: "js_value \<Rightarrow> int" where
  "getRelayPort stored =
     (case parseInt10 (String_or_empty stored) of
        None \<Rightarrow> DEFAULT_PORT
      | Some n \<Rightarrow> if n \<le> 0 \<or> n > 65535 then DEFAULT_PORT else n)"


section \<open>types.ts and the state of background.ts\<close>

datatype tab_state = Connecting | Connected

datatype BadgeKind = BadgeOn | BadgeOff | BadgeConnecting | BadgeError

record TabSession =
  state :: tab_state
  sessionId :: "string option"
  targetId :: "string option"
  attachOrder :: "nat option"
  url :: "string option"
  title :: "string option"
  attachedAt :: "nat option"

record PersistedTab =
  p_tabId :: int
  p_sessionId :: string
  p_targetId :: string
  p_attachOrder :: nat

text \<open>\<open>WebSocket.readyState\<close>.\<close>

datatype ready_state = CONNECTING | OPEN | CLOSING | CLOSED

text \<open>
  The frames the extension sends to the relay: the \<open>forwardCDPEvent\<close> notifications
  \<open>Target.attachedToTarget\<close> (session id) and \<open>Target.detachedFromTarget\<close> (session
  id, target id when given, reason), and a forwarded debugger event (session id, method).
\<close>

datatype relay_frame =
    AttachedToTarget string
  | DetachedFromTarget string "string option" string
  | CdpEvent "string option" string

text \<open>What \<open>chrome.storage.session\<close> holds under \<open>persistedTabs\<close> and \<open>nextSession\<close>.\<close>

record session_store =
  persistedTabs :: "PersistedTab list option"
  storedNextSession :: "nat option"

text \<open>
  The module-level variables of \<open>background.ts\<close>.  A JavaScript \<open>Map\<close> is an
  association list in insertion order: \<open>get\<close> is \<open>map_of\<close>, \<open>set\<close> is
  \<open>AList.update\<close> (in place for a known key, at the end for a new one) and \<open>delete\<close>
  is \<open>AList.delete\<close>.  \<open>relayWs\<close> holds the ready state of the socket it points to,
  \<open>reconnectTimer\<close> the delay of the armed timer, \<open>storage\<close> the session storage
  area (\<open>None\<close> when \<open>chrome.storage.session\<close> is not available), \<open>badge\<close> the
  per-tab badge last painted by \<open>setBadge\<close> and \<open>sent\<close> the frames written to the
  socket.  \<open>nextSession\<close> and \<open>reconnectAttempt\<close> are counters far below
  \<open>2 ^ 53\<close>, taken as natural numbers.  The map of pending requests and the toolbar
  badge of \<open>updateGlobalBadge\<close> do not touch the variables below and are left out.
\<close>

record relay =
  tabs :: "(int \<times> TabSession) list"
  tabBySession :: "(string \<times> int) list"
  childSessionToTab :: "(string \<times> int) list"
  tabOperationLocks :: "int set"
  reattachPending :: "int set"
  nextSession :: nat
  reconnectAttempt :: nat
  reconnectTimer :: "jsnum option"
  relayWs :: "ready_state option"
  relayConnectPromise :: bool
  storage :: "session_store option"
  badge :: "int \<Rightarrow> BadgeKind option"
  sent :: "relay_frame list"

definition initial :: "session_store option \<Rightarrow> relay" where
  "initial store =
     \<lparr>tabs = [], tabBySession = [], childSessionToTab = [], tabOperationLocks = {},
      reattachPending = {}, nextSession = 1, reconnectAttempt = 0, reconnectTimer = None,
      relayWs = None, relayConnectPromise = False, storage = store,
      badge = (\<lambda>t. None), sent = []\<rparr>"

subsection \<open>The browser\<close>

datatype ws_outcome = WsOpened | WsError | WsClosed int string | WsTimeout

record tab_info =
  ti_url :: "string option"
  ti_title :: "string option"

record target_info =
  tg_targetId :: "string option"
  tg_url :: "string option"
  tg_title :: "string option"

record browser_tab =
  bt_id :: "int option"
  bt_url :: "string option"

text \<open>
  What the browser and the settings store answer while one handler runs:
  \<open>autoAttachSetting\<close> is \<open>stored.autoAttach !== false\<close>; \<open>headProbe\<close> is the error
  of the HEAD request (\<open>None\<close> when it resolves); \<open>wsOutcome\<close> is which of open, error,
  close and the 5 s timeout comes first; \<open>browserTabs\<close> is \<open>chrome.tabs.query({})\<close>;
  \<open>tabInfoOf\<close> is \<open>chrome.tabs.get\<close> (\<open>None\<close> when it rejects);
  \<open>debuggerAttach\<close> is the error of \<open>chrome.debugger.attach\<close> (\<open>None\<close> when it
  resolves); \<open>targetInfoOf\<close> is \<open>Target.getTargetInfo\<close> (\<open>Inl\<close> the error,
  \<open>Inr\<close> the \<open>targetInfo\<close> field of the reply); \<open>evaluateOk\<close> tells whether the
  probe \<open>Runtime.evaluate\<close> resolves; \<open>clock\<close> is \<open>Date.now()\<close> and
  \<open>randomDraw\<close> the next \<open>Math.random()\<close>.
\<close>

record environment =
  autoAttachSetting :: bool
  storedPort :: js_value
  storedToken :: js_value
  headProbe :: "string option"
  wsOutcome :: ws_outcome
  browserTabs :: "browser_tab list"
  ownOptionsUrl :: string
  tabInfoOf :: "int \<Rightarrow> tab_info option"
  debuggerAttach :: "int \<Rightarrow> string option"
  targetInfoOf :: "int \<Rightarrow> string + target_info option"
  evaluateOk :: "int \<Rightarrow> bool"
  clock :: nat
  randomDraw :: jsnum

subsection \<open>Truthiness\<close>

definition truthy :: "string option \<Rightarrow> bool" where
  "truthy x = (case x of None \<Rightarrow> False | Some s \<Rightarrow> s \<noteq> [])"

text \<open>\<open>x || d\<close> for an optional string \<open>x\<close>.\<close>

definition str_or :: "string option \<Rightarrow> string \<Rightarrow> string" where
  "str_or x d = (case x of None \<Rightarrow> d | Some s \<Rightarrow> if s = [] then d else s)"

text \<open>\<open>m.has(k)\<close>.\<close>

definition has :: "('k \<times> 'v) list \<Rightarrow> 'k \<Rightarrow> bool" where
  "has m k = (map_of m k \<noteq> None)"

text \<open>
  \<open>for (const [c, p] of childSessionToTab.entries()) if (p === tabId)
  childSessionToTab.delete(c)\<close>: in a \<open>Map\<close> every key stands once, so the loop keeps
  the entries of the other tabs.
\<close>

definition deleteChildrenOf :: "int \<Rightarrow> (string \<times> int) list \<Rightarrow> (string \<times> int) list" where
  "deleteChildrenOf tabId m = filter (\<lambda>e. snd e \<noteq> tabId) m"

subsection \<open>Badge, socket and persistence\<close>

definition setBadge :: "int \<Rightarrow> BadgeKind \<Rightarrow> relay \<Rightarrow> relay" where
  "setBadge tabId kind st = st\<lparr>badge := (badge st)(tabId \<mapsto> kind)\<rparr>"

text \<open>\<open>sendToRelay\<close> throws unless the socket is open: \<open>None\<close> is the throw.\<close>

definition sendToRelay :: "relay_frame \<Rightarrow> relay \<Rightarrow> relay option" where
  "sendToRelay payload st =
     (if relayWs st = Some OPEN then Some (st\<lparr>sent := sent st @ [payload]\<rparr>) else None)"

text \<open>\<open>try { sendToRelay(payload) } catch { }\<close>.\<close>

definition trySend :: "relay_frame \<Rightarrow> relay \<Rightarrow> relay" where
  "trySend payload st = (case sendToRelay payload st of None \<Rightarrow> st | Some st' \<Rightarrow> st')"

text \<open>
  The condition under which \<open>persistState\<close> writes a tab entry, and the entries it
  writes.
\<close>

definition persistable :: "TabSession \<Rightarrow> bool" where
  "persistable tab =
     (state tab = Connected \<and> truthy (sessionId tab) \<and> truthy (targetId tab))"

definition snapshot :: "(int \<times> TabSession) list \<Rightarrow> PersistedTab list" where
  "snapshot ts =
     map (\<lambda>e. \<lparr>p_tabId = fst e, p_sessionId = str_or (sessionId (snd e)) [],
               p_targetId = str_or (targetId (snd e)) [],
               p_attachOrder = (case attachOrder (snd e) of None \<Rightarrow> 0 | Some n \<Rightarrow> n)\<rparr>)
       (filter (\<lambda>e. persistable (snd e)) ts)"

definition persistState :: "relay \<Rightarrow> relay" where
  "persistState st =
     (case storage st of
        None \<Rightarrow> st
      | Some old \<Rightarrow>
          st\<lparr>storage := Some \<lparr>persistedTabs = Some (snapshot (tabs st)),
                              storedNextSession = Some (nextSession st)\<rparr>\<rparr>)"

text \<open>
  The two loops of \<open>rehydrateState\<close>: repopulate, then probe and prune.
  \<open>restoredTab\<close> is the object stored for a persisted entry.
\<close>

definition restoredTab :: "PersistedTab \<Rightarrow> TabSession" where
  "restoredTab entry =
     \<lparr>state = Connected, sessionId = Some (p_sessionId entry),
      targetId = Some (p_targetId entry), attachOrder = Some (p_attachOrder entry),
      url = None, title = None, attachedAt = None\<rparr>"

fun rehydrateFill :: "PersistedTab list \<Rightarrow> relay \<Rightarrow> relay" where
  "rehydrateFill [] st = st"
| "rehydrateFill (entry # entries) st =
     rehydrateFill entries
       (setBadge (p_tabId entry) BadgeOn
          (st\<lparr>tabs := AList.update (p_tabId entry) (restoredTab entry) (tabs st),
               tabBySession := AList.update (p_sessionId entry) (p_tabId entry)
                  (tabBySession st)\<rparr>))"

fun rehydrateProbe :: "environment \<Rightarrow> PersistedTab list \<Rightarrow> relay \<Rightarrow> relay" where
  "rehydrateProbe env [] st = st"
| "rehydrateProbe env (entry # entries) st =
     rehydrateProbe env entries
       (if tabInfoOf env (p_tabId entry) \<noteq> None \<and> evaluateOk env (p_tabId entry) then st
        else setBadge (p_tabId entry) BadgeOff
               (st\<lparr>tabs := AList.delete (p_tabId entry) (tabs st),
                    tabBySession := AList.delete (p_sessionId entry) (tabBySession st)\<rparr>))"

definition rehydrateState :: "environment \<Rightarrow> relay \<Rightarrow> relay" where
  "rehydrateState env st =
     (case storage st of
        None \<Rightarrow> st
      | Some stored \<Rightarrow>
          let st1 = (case storedNextSession stored of
                       None \<Rightarrow> st
                     | Some n \<Rightarrow>
                         if n = 0 then st else st\<lparr>nextSession := max (nextSession st) n\<rparr>);
              entries = (case persistedTabs stored of None \<Rightarrow> [] | Some es \<Rightarrow> es)
          in rehydrateProbe env entries (rehydrateFill entries st1))"

subsection \<open>Relay connection\<close>

text \<open>
  \<open>buildRelayWsUrl\<close>: throws when the trimmed gateway token is empty; otherwise the
  URL carries the port and the HMAC of the token, kept here as the pair it is built from.
\<close>

definition buildRelayWsUrl :: "int \<Rightarrow> string \<Rightarrow> string + int \<times> string" where
  "buildRelayWsUrl port gatewayToken =
     (let token = trim gatewayToken
      in if token = [] then Inl missingTokenMessage else Inr (port, token))"

text \<open>
  The body of the promise \<open>relayConnectPromise\<close>: settings, URL, HEAD probe, socket.
  \<open>relayWs\<close> is assigned as soon as the socket is constructed, so a failed attempt
  leaves it pointing to a socket that is not open.
\<close>

definition connectAttempt :: "environment \<Rightarrow> relay \<Rightarrow> relay \<times> string option" where
  "connectAttempt env st =
     (let port = getRelayPort (storedPort env);
          gatewayToken = trim (String_or_empty (storedToken env))
      in case buildRelayWsUrl port gatewayToken of
           Inl err \<Rightarrow> (st, Some err)
         | Inr wsUrl \<Rightarrow>
            (case headProbe env of
               Some err \<Rightarrow>
                 (st, Some (''Relay server not reachable at http://127.0.0.1:''
                            @ String_int port @ '' ('' @ err @ '')''))
             | None \<Rightarrow>
                (case wsOutcome env of
                   WsOpened \<Rightarrow> (st\<lparr>relayWs := Some OPEN\<rparr>, None)
                 | WsError \<Rightarrow> (st\<lparr>relayWs := Some CLOSED\<rparr>, Some ''WebSocket connect failed'')
                 | WsClosed code reason \<Rightarrow>
                     (st\<lparr>relayWs := Some CLOSED\<rparr>,
                      Some (''WebSocket closed ('' @ String_int code @ '' ''
                            @ (if reason = [] then ''no reason'' else reason) @ '')''))
                 | WsTimeout \<Rightarrow>
                     (st\<lparr>relayWs := Some CONNECTING\<rparr>, Some ''WebSocket connect timeout''))))"

text \<open>
  \<open>try { await relayConnectPromise; reconnectAttempt = 0 } finally
  { relayConnectPromise = null }\<close>: the result is the error thrown, if any.
\<close>

definition awaitConnect :: "environment \<Rightarrow> relay \<Rightarrow> relay \<times> string option" where
  "awaitConnect env st =
     (case connectAttempt env st of
        (st1, None) \<Rightarrow> (st1\<lparr>reconnectAttempt := 0, relayConnectPromise := False\<rparr>, None)
      | (st1, Some err) \<Rightarrow> (st1\<lparr>relayConnectPromise := False\<rparr>, Some err))"

text \<open>
  \<open>ensureRelayConnection\<close>.  A caller that finds an attempt in flight awaits that
  attempt: it resumes when the attempt has run to its end, after the code of the caller
  that started it.
\<close>

definition ensureRelayConnection :: "environment \<Rightarrow> relay \<Rightarrow> relay \<times> string option" where
  "ensureRelayConnection env st =
     (if relayWs st = Some OPEN then (st, None)
      else if relayConnectPromise st then awaitConnect env st
      else awaitConnect env (st\<lparr>relayConnectPromise := True\<rparr>))"

text \<open>
  \<open>scheduleReconnect\<close> arms the timer (a timer armed before is cleared);
  \<open>reconnectTimerFired\<close> below is the callback it installs.
\<close>

definition scheduleReconnect :: "jsnum \<Rightarrow> relay \<Rightarrow> relay" where
  "scheduleReconnect rnd st =
     (let delay = reconnectDelayMs (Num (real (reconnectAttempt st))) defaultOptions rnd
      in st\<lparr>reconnectAttempt := reconnectAttempt st + 1, reconnectTimer := Some delay\<rparr>)"

definition cancelReconnect :: "relay \<Rightarrow> relay" where
  "cancelReconnect st = st\<lparr>reconnectTimer := None, reconnectAttempt := 0\<rparr>"

fun reannounceLoop :: "environment \<Rightarrow> (int \<times> TabSession) list \<Rightarrow> relay \<Rightarrow> relay" where
  "reannounceLoop env [] st = st"
| "reannounceLoop env (e # es) st =
     (let tabId = fst e; tab = snd e
      in if state tab \<noteq> Connected \<or> \<not> truthy (sessionId tab) \<or> \<not> truthy (targetId tab)
         then reannounceLoop env es st
         else if \<not> evaluateOk env tabId
         then reannounceLoop env es
                (setBadge tabId BadgeOff
                   (st\<lparr>tabs := AList.delete tabId (tabs st),
                        tabBySession :=
                          (if truthy (sessionId tab)
                           then AList.delete (str_or (sessionId tab) []) (tabBySession st)
                           else tabBySession st)\<rparr>))
         else reannounceLoop env es
                (setBadge tabId BadgeOn
                   (case targetInfoOf env tabId of
                      Inl err \<Rightarrow> st
                    | Inr info \<Rightarrow> trySend (AttachedToTarget (str_or (sessionId tab) [])) st)))"

definition reannounceAttachedTabs :: "environment \<Rightarrow> relay \<Rightarrow> relay" where
  "reannounceAttachedTabs env st = persistState (reannounceLoop env (tabs st) st)"

definition reconnectTimerFired :: "environment \<Rightarrow> relay \<Rightarrow> relay" where
  "reconnectTimerFired env st =
     (case ensureRelayConnection env (st\<lparr>reconnectTimer := None\<rparr>) of
        (st1, None) \<Rightarrow> reannounceAttachedTabs env (st1\<lparr>reconnectAttempt := 0\<rparr>)
      | (st1, Some err) \<Rightarrow>
          if \<not> isRetryableReconnectError err then st1
          else scheduleReconnect (randomDraw env) st1)"

fun badgeConnecting :: "(int \<times> TabSession) list \<Rightarrow> relay \<Rightarrow> relay" where
  "badgeConnecting [] st = st"
| "badgeConnecting (e # es) st =
     badgeConnecting es
       (if state (snd e) = Connected then setBadge (fst e) BadgeConnecting st else st)"

definition onRelayClosed :: "string \<Rightarrow> jsnum \<Rightarrow> relay \<Rightarrow> relay" where
  "onRelayClosed reason rnd st =
     scheduleReconnect rnd
       (badgeConnecting (tabs st) (st\<lparr>relayWs := None, reattachPending := {}\<rparr>))"

subsection \<open>Attach and detach\<close>

definition sessionName :: "nat \<Rightarrow> string" where
  "sessionName sid = ''cb-tab-'' @ dec sid"

text \<open>
  \<open>attachTab(tabId, opts)\<close>: the state and either the error thrown or the pair
  \<open>(sessionId, targetId)\<close> returned.  \<open>reportedTargetId\<close> is its local constant
  \<open>targetId\<close> and \<open>newTabSession\<close> the object it stores in \<open>tabs\<close>.  A failure
  of \<open>Page.enable\<close> is swallowed and changes nothing.
\<close>

definition reportedTargetId :: "target_info option \<Rightarrow> string" where
  "reportedTargetId targetInfo =
     trim (str_or (case targetInfo of None \<Rightarrow> None | Some ti \<Rightarrow> tg_targetId ti) [])"

definition newTabSession ::
  "environment \<Rightarrow> int \<Rightarrow> target_info option \<Rightarrow> nat \<Rightarrow> TabSession" where
  "newTabSession env tabId targetInfo sid =
     (let tabInfo = tabInfoOf env tabId;
          targetUrl = (case targetInfo of None \<Rightarrow> None | Some ti \<Rightarrow> tg_url ti);
          targetTitle = (case targetInfo of None \<Rightarrow> None | Some ti \<Rightarrow> tg_title ti);
          tabUrl = (case tabInfo of None \<Rightarrow> None | Some ti \<Rightarrow> ti_url ti);
          tabTitle = (case tabInfo of None \<Rightarrow> None | Some ti \<Rightarrow> ti_title ti)
      in \<lparr>state = Connected, sessionId = Some (sessionName sid),
          targetId = Some (reportedTargetId targetInfo), attachOrder = Some sid,
          url = Some (str_or tabUrl (str_or targetUrl [])),
          title = Some (str_or tabTitle (str_or targetTitle [])),
          attachedAt = Some (clock env)\<rparr>)"

definition attachTab ::
  "environment \<Rightarrow> int \<Rightarrow> bool \<Rightarrow> relay \<Rightarrow> relay \<times> (string + string \<times> string)" where
  "attachTab env tabId skipAttachedEvent st =
     (case debuggerAttach env tabId of
        Some err \<Rightarrow> (st, Inl err)
      | None \<Rightarrow>
         (case targetInfoOf env tabId of
            Inl err \<Rightarrow> (st, Inl err)
          | Inr targetInfo \<Rightarrow>
             if reportedTargetId targetInfo = []
             then (st, Inl ''Target.getTargetInfo returned no targetId'')
             else
               (let sid = nextSession st;
                    sess = sessionName sid;
                    st1 = st\<lparr>nextSession := sid + 1,
                             tabs := AList.update tabId
                                       (newTabSession env tabId targetInfo sid) (tabs st),
                             tabBySession := AList.update sess tabId (tabBySession st)\<rparr>;
                    st2 = (if skipAttachedEvent then st1
                           else trySend (AttachedToTarget sess) st1)
                in (persistState (setBadge tabId BadgeOn st2),
                    Inr (sess, reportedTargetId targetInfo)))))"

text \<open>Whether the browser lets \<open>attachTab\<close> run to its end on the tab.\<close>

definition attachSucceeds :: "environment \<Rightarrow> int \<Rightarrow> bool" where
  "attachSucceeds env tabId =
     (debuggerAttach env tabId = None
      \<and> (case targetInfoOf env tabId of
            Inl err \<Rightarrow> False
          | Inr targetInfo \<Rightarrow> reportedTargetId targetInfo \<noteq> []))"

fun notifyChildren :: "int \<Rightarrow> (string \<times> int) list \<Rightarrow> relay \<Rightarrow> relay" where
  "notifyChildren tabId [] st = st"
| "notifyChildren tabId (e # es) st =
     notifyChildren tabId es
       (if snd e = tabId then trySend (DetachedFromTarget (fst e) None ''parent_detached'') st
        else st)"

definition detachTab :: "int \<Rightarrow> string \<Rightarrow> relay \<Rightarrow> relay" where
  "detachTab tabId reason st =
     (let tab = map_of (tabs st) tabId;
          sess = (case tab of None \<Rightarrow> None | Some t \<Rightarrow> sessionId t);
          tgt = (case tab of None \<Rightarrow> None | Some t \<Rightarrow> targetId t);
          st1 = (notifyChildren tabId (childSessionToTab st) st)
                  \<lparr>childSessionToTab := deleteChildrenOf tabId (childSessionToTab st)\<rparr>;
          st2 = (if truthy sess \<and> truthy tgt
                 then trySend (DetachedFromTarget (str_or sess []) tgt reason) st1 else st1);
          st3 = st2\<lparr>tabBySession :=
                      (if truthy sess then AList.delete (str_or sess []) (tabBySession st2)
                       else tabBySession st2),
                   tabs := AList.delete tabId (tabs st2)\<rparr>
      in persistState (setBadge tabId BadgeOff st3))"

subsection \<open>Auto-attach\<close>

fun autoAttachLoop :: "environment \<Rightarrow> browser_tab list \<Rightarrow> relay \<Rightarrow> relay" where
  "autoAttachLoop env [] st = st"
| "autoAttachLoop env (tab # rest) st =
     (case bt_id tab of
        None \<Rightarrow> autoAttachLoop env rest st
      | Some tid \<Rightarrow>
          if tid = 0 then autoAttachLoop env rest st
          else if has (tabs st) tid then autoAttachLoop env rest st
          else if isSkippableUrl (bt_url tab) then autoAttachLoop env rest st
          else if bt_url tab = Some (ownOptionsUrl env) then autoAttachLoop env rest st
          else if tid \<in> tabOperationLocks st then autoAttachLoop env rest st
          else
            (let st1 = st\<lparr>tabOperationLocks := insert tid (tabOperationLocks st)\<rparr>;
                 st2 = fst (attachTab env tid False st1)
             in autoAttachLoop env rest
                  (st2\<lparr>tabOperationLocks := tabOperationLocks st2 - {tid}\<rparr>)))"

definition autoAttachAllTabs :: "environment \<Rightarrow> relay \<Rightarrow> relay" where
  "autoAttachAllTabs env st =
     (if \<not> autoAttachSetting env then st else autoAttachLoop env (browserTabs env) st)"

definition autoAttachTab :: "environment \<Rightarrow> int \<Rightarrow> string option \<Rightarrow> relay \<Rightarrow> relay" where
  "autoAttachTab env tabId tabUrl st =
     (if \<not> autoAttachSetting env then st
      else if has (tabs st) tabId then st
      else if isSkippableUrl tabUrl then st
      else if tabId \<in> tabOperationLocks st then st
      else if tabId \<in> reattachPending st then st
      else if tabUrl = Some (ownOptionsUrl env) then st
      else
        (case ensureRelayConnection env st of
           (st1, Some err) \<Rightarrow> st1
         | (st1, None) \<Rightarrow>
            (let st2 = st1\<lparr>tabOperationLocks := insert tabId (tabOperationLocks st1)\<rparr>;
                 st3 = fst (attachTab env tabId False st2)
             in st3\<lparr>tabOperationLocks := tabOperationLocks st3 - {tabId}\<rparr>)))"

fun detachAll :: "int list \<Rightarrow> relay \<Rightarrow> relay" where
  "detachAll [] st = st"
| "detachAll (tabId # rest) st = detachAll rest (detachTab tabId ''toggle'' st)"

definition onActionClicked :: "environment \<Rightarrow> relay \<Rightarrow> relay" where
  "onActionClicked env st =
     (let attachedCount = length (filter (\<lambda>e. state (snd e) = Connected) (tabs st))
      in if attachedCount > 0 then detachAll (map fst (tabs st)) st
         else
           (case ensureRelayConnection env (cancelReconnect st) of
              (st1, None) \<Rightarrow> autoAttachAllTabs env st1
            | (st1, Some err) \<Rightarrow> st1))"

subsection \<open>Command router\<close>

text \<open>
  An inbound \<open>forwardCDPCommand\<close>: \<open>params.method\<close>, \<open>params.sessionId\<close> when it
  is a string, and of the nested \<open>params.params\<close> the fields \<open>targetId\<close> and
  \<open>url\<close> when they are strings.
\<close>

record cdp_command =
  cmd_method :: "string option"
  cmd_sessionId :: "string option"
  cmd_targetId :: "string option"
  cmd_url :: "string option"

text \<open>The tab ids are numbers: 0 is falsy.\<close>

definition getTabBySessionId :: "string \<Rightarrow> relay \<Rightarrow> (int \<times> string) option" where
  "getTabBySessionId sess st =
     (let direct = map_of (tabBySession st) sess;
          child = map_of (childSessionToTab st) sess
      in case direct of
           Some d \<Rightarrow>
             if d \<noteq> 0 then Some (d, ''main'')
             else (case child of None \<Rightarrow> None
                   | Some c \<Rightarrow> if c \<noteq> 0 then Some (c, ''child'') else None)
         | None \<Rightarrow>
             (case child of None \<Rightarrow> None
              | Some c \<Rightarrow> if c \<noteq> 0 then Some (c, ''child'') else None))"

definition getTabByTargetId :: "string \<Rightarrow> relay \<Rightarrow> int option" where
  "getTabByTargetId tgt st =
     map_option fst (find (\<lambda>e. targetId (snd e) = Some tgt) (tabs st))"

definition resolveTabId :: "cdp_command \<Rightarrow> relay \<Rightarrow> int option" where
  "resolveTabId msg st =
     (let bySession = (if truthy (cmd_sessionId msg)
                       then getTabBySessionId (str_or (cmd_sessionId msg) []) st else None);
          byTarget = (if truthy (cmd_targetId msg)
                      then getTabByTargetId (str_or (cmd_targetId msg) []) st else None)
      in case bySession of
           Some hit \<Rightarrow> Some (fst hit)
         | None \<Rightarrow>
             (case byTarget of
                Some t \<Rightarrow>
                  if t \<noteq> 0 then Some t
                  else map_option fst (find (\<lambda>e. state (snd e) = Connected) (tabs st))
              | None \<Rightarrow> map_option fst (find (\<lambda>e. state (snd e) = Connected) (tabs st))))"



subsection \<open>Debugger and tab events\<close>

text \<open>
  \<open>onDebuggerEvent(source, method, params)\<close>, with \<open>source.tabId\<close>,
  \<open>source.sessionId\<close> and \<open>params.sessionId\<close>.
\<close>

definition onDebuggerEvent ::
  "int option \<Rightarrow> string option \<Rightarrow> string \<Rightarrow> string option \<Rightarrow> relay \<Rightarrow> relay" where
  "onDebuggerEvent sourceTab sourceSession method paramSession st =
     (case sourceTab of
        None \<Rightarrow> st
      | Some tabId \<Rightarrow>
          if tabId = 0 then st
          else
            (case map_of (tabs st) tabId of
               None \<Rightarrow> st
             | Some tab \<Rightarrow>
                 if \<not> truthy (sessionId tab) then st
                 else
                   (let st1 = (if method = ''Target.attachedToTarget'' \<and> truthy paramSession
                               then st\<lparr>childSessionToTab :=
                                         AList.update (str_or paramSession []) tabId
                                           (childSessionToTab st)\<rparr>
                               else st);
                        st2 = (if method = ''Target.detachedFromTarget'' \<and> truthy paramSession
                               then st1\<lparr>childSessionToTab :=
                                          AList.delete (str_or paramSession [])
                                            (childSessionToTab st1)\<rparr>
                               else st1)
                    in trySend (CdpEvent (if truthy sourceSession then sourceSession
                                          else sessionId tab) method) st2)))"

text \<open>
  The retry loop of \<open>onDebuggerDetach\<close> over the remaining delays.  For the retry
  numbered \<open>attempt\<close> the first environment answers \<open>chrome.tabs.get\<close> and the attach
  without announcement, the second the plain attach.  The result carries the delays
  awaited and how the loop ended.
\<close>

datatype reattach_outcome =
    NotTracked | Detached | AlreadyPending | Cancelled | TabGone | Reattached | Exhausted

fun reattachLoop ::
  "(nat \<Rightarrow> environment \<times> environment) \<Rightarrow> int \<Rightarrow> nat list \<Rightarrow> nat \<Rightarrow> relay
     \<Rightarrow> relay \<times> nat list \<times> reattach_outcome" where
  "reattachLoop envs tabId [] attempt st =
     (setBadge tabId BadgeOff (st\<lparr>reattachPending := reattachPending st - {tabId}\<rparr>),
      [], Exhausted)"
| "reattachLoop envs tabId (d # ds) attempt st =
     (if tabId \<notin> reattachPending st then (st, [d], Cancelled)
      else if tabInfoOf (fst (envs attempt)) tabId = None
      then (setBadge tabId BadgeOff (st\<lparr>reattachPending := reattachPending st - {tabId}\<rparr>),
            [d], TabGone)
      else
        (let quiet = (if relayWs st \<noteq> Some OPEN
                      then attachTab (fst (envs attempt)) tabId True st
                      else (st, Inl []))
         in case snd quiet of
              Inr done \<Rightarrow>
                ((fst quiet)\<lparr>reattachPending := reattachPending (fst quiet) - {tabId}\<rparr>,
                 [d], Reattached)
            | Inl err \<Rightarrow>
                (let loud = attachTab (snd (envs attempt)) tabId False (fst quiet)
                 in case snd loud of
                      Inr done \<Rightarrow>
                        ((fst loud)\<lparr>reattachPending := reattachPending (fst loud) - {tabId}\<rparr>,
                         [d], Reattached)
                    | Inl err2 \<Rightarrow>
                        (let r = reattachLoop envs tabId ds (attempt + 1) (fst loud)
                         in (fst r, d # fst (snd r), snd (snd r))))))"

definition reattachDelays :: "nat list" where
  "reattachDelays = [300, 700, 1500]"

definition onDebuggerDetach ::
  "environment \<Rightarrow> (nat \<Rightarrow> environment \<times> environment) \<Rightarrow> int option \<Rightarrow> string \<Rightarrow> relay
     \<Rightarrow> relay \<times> nat list \<times> reattach_outcome" where
  "onDebuggerDetach env envs sourceTab reason st =
     (case sourceTab of
        None \<Rightarrow> (st, [], NotTracked)
      | Some tabId \<Rightarrow>
          if tabId = 0 then (st, [], NotTracked)
          else if \<not> has (tabs st) tabId then (st, [], NotTracked)
          else if reason = ''canceled_by_user'' \<or> reason = ''replaced_with_devtools''
          then (detachTab tabId reason st, [], Detached)
          else
            (case tabInfoOf env tabId of
               None \<Rightarrow> (detachTab tabId reason st, [], Detached)
             | Some tabInfo \<Rightarrow>
                 if isSkippableUrl (ti_url tabInfo) then (detachTab tabId reason st, [], Detached)
                 else if tabId \<in> reattachPending st then (st, [], AlreadyPending)
                 else
                   (let oldTab = map_of (tabs st) tabId;
                        oldSessionId = (case oldTab of None \<Rightarrow> None | Some t \<Rightarrow> sessionId t);
                        oldTargetId = (case oldTab of None \<Rightarrow> None | Some t \<Rightarrow> targetId t);
                        st1 = st\<lparr>tabBySession :=
                                   (if truthy oldSessionId
                                    then AList.delete (str_or oldSessionId []) (tabBySession st)
                                    else tabBySession st),
                                 tabs := AList.delete tabId (tabs st),
                                 childSessionToTab :=
                                   deleteChildrenOf tabId (childSessionToTab st)\<rparr>;
                        st2 = (if truthy oldSessionId \<and> truthy oldTargetId
                               then trySend (DetachedFromTarget (str_or oldSessionId [])
                                               oldTargetId ''navigation-reattach'') st1
                               else st1);
                        st3 = setBadge tabId BadgeConnecting
                                (st2\<lparr>reattachPending := insert tabId (reattachPending st2)\<rparr>)
                    in reattachLoop envs tabId reattachDelays 0 st3)))"

text \<open>The listeners of \<open>chrome.tabs.onRemoved\<close> and \<open>chrome.tabs.onReplaced\<close>.\<close>

definition onRemoved :: "int \<Rightarrow> relay \<Rightarrow> relay" where
  "onRemoved tabId st =
     (let st0 = st\<lparr>reattachPending := reattachPending st - {tabId}\<rparr>
      in if \<not> has (tabs st0) tabId then st0
         else
           (let tab = map_of (tabs st0) tabId;
                sess = (case tab of None \<Rightarrow> None | Some t \<Rightarrow> sessionId t);
                tgt = (case tab of None \<Rightarrow> None | Some t \<Rightarrow> targetId t);
                st1 = st0\<lparr>tabBySession :=
                            (if truthy sess then AList.delete (str_or sess []) (tabBySession st0)
                             else tabBySession st0),
                          tabs := AList.delete tabId (tabs st0),
                          childSessionToTab := deleteChildrenOf tabId (childSessionToTab st0)\<rparr>;
                st2 = (if truthy sess \<and> truthy tgt
                       then trySend (DetachedFromTarget (str_or sess []) tgt ''tab_closed'') st1
                       else st1)
            in persistState st2))"

definition onReplaced :: "int \<Rightarrow> int \<Rightarrow> relay \<Rightarrow> relay" where
  "onReplaced addedTabId removedTabId st =
     (case map_of (tabs st) removedTabId of
        None \<Rightarrow> st
      | Some tab \<Rightarrow>
          (let st1 = st\<lparr>tabs := AList.update addedTabId tab
                                  (AList.delete removedTabId (tabs st)),
                        tabBySession :=
                          (if truthy (sessionId tab)
                           then AList.update (str_or (sessionId tab) []) addedTabId
                                  (tabBySession st)
                           else tabBySession st),
                        childSessionToTab :=
                          map (\<lambda>e. if snd e = removedTabId then (fst e, addedTabId) else e)
                            (childSessionToTab st)\<rparr>
           in persistState (setBadge addedTabId BadgeOn st1)))"

subsection \<open>Keepalive alarm and start-up\<close>

text \<open>
  The alarm listener starts \<open>autoAttachTab\<close> for every untracked tab without awaiting
  it (\<open>void\<close>) and then looks at the relay.  Each of those calls first awaits the
  settings store, so none of their effects precedes the check of the relay; here they
  run, in order, once the listener's own reconnect has settled.
\<close>

fun autoAttachEach :: "environment \<Rightarrow> browser_tab list \<Rightarrow> relay \<Rightarrow> relay" where
  "autoAttachEach env [] st = st"
| "autoAttachEach env (tab # rest) st =
     autoAttachEach env rest
       (case bt_id tab of None \<Rightarrow> st | Some tid \<Rightarrow> autoAttachTab env tid (bt_url tab) st)"

definition onAlarm :: "string \<Rightarrow> environment \<Rightarrow> relay \<Rightarrow> relay" where
  "onAlarm alarmName env st =
     (if alarmName \<noteq> ''relay-keepalive'' then st
      else
        (let started = (if autoAttachSetting env
                        then filter (\<lambda>tab. (case bt_id tab of None \<Rightarrow> False
                                             | Some tid \<Rightarrow> tid \<noteq> 0 \<and> \<not> has (tabs st) tid)
                                           \<and> \<not> isSkippableUrl (bt_url tab)) (browserTabs env)
                        else []);
             st1 = (if relayWs st \<noteq> Some OPEN
                    then if \<not> relayConnectPromise st \<and> reconnectTimer st = None
                         then (case ensureRelayConnection env st of
                                 (s, None) \<Rightarrow> s
                               | (s, Some err) \<Rightarrow>
                                   if reconnectTimer s = None
                                   then scheduleReconnect (randomDraw env) s else s)
                         else st
                    else st)
         in autoAttachEach env started st1))"

text \<open>
  The start-up chain: \<open>rehydrateState\<close>, then connect, re-announce and attach, and
  on a failed connect \<open>scheduleReconnect\<close> and a best-effort attach.
\<close>

definition startup :: "environment \<Rightarrow> relay \<Rightarrow> relay" where
  "startup env st =
     (let st0 = rehydrateState env st
      in case ensureRelayConnection env st0 of
           (st1, None) \<Rightarrow>
             (let st2 = st1\<lparr>reconnectAttempt := 0\<rparr>;
                  st3 = (if tabs st2 \<noteq> [] then reannounceAttachedTabs env st2 else st2)
              in autoAttachAllTabs env st3)
         | (st1, Some err) \<Rightarrow>
             (let st2 = scheduleReconnect (randomDraw env) st1
              in if autoAttachSetting env then autoAttachAllTabs env st2 else st2))"

section \<open>Properties of the session tables\<close>




text \<open>Sequences of attach and detach operations.\<close>

datatype operation = Attach environment int bool | Detach int string

fun apply_operation :: "operation \<Rightarrow> relay \<Rightarrow> relay" where
  "apply_operation (Attach env tabId skipAttachedEvent) st =
     fst (attachTab env tabId skipAttachedEvent st)"
| "apply_operation (Detach tabId reason) st = detachTab tabId reason st"

fun run :: "operation list \<Rightarrow> relay \<Rightarrow> relay" where
  "run [] st = st"
| "run (x # xs) st = run xs (apply_operation x st)"






text \<open>
  A relation between the state before and after a piece of a handler: an open socket
  stays open, and the backoff counter is zero afterwards only if it was zero before or the
  socket is open.
\<close>

definition resetOnlyConnected :: "relay \<Rightarrow> relay \<Rightarrow> bool" where
  "resetOnlyConnected s s' =
     ((relayWs s = Some OPEN \<longrightarrow> relayWs s' = Some OPEN)
      \<and> (reconnectAttempt s' = 0 \<longrightarrow> reconnectAttempt s = 0 \<or> relayWs s' = Some OPEN))"

text \<open>The handlers that run one at a time on the state.\<close>

datatype handler =
    EnsureRelayConnection
  | ReconnectTimerFired
  | RelayClosed string
  | Alarm string
  | Startup
  | ActionClicked
  | AutoAttachTab int "string option"
  | AutoAttachAllTabs
  | AttachTab int bool
  | DetachTab int string
  | DebuggerEvent "int option" "string option" string "string option"
  | DebuggerDetach "nat \<Rightarrow> environment \<times> environment" "int option" string
  | TabRemoved int
  | TabReplaced int int

fun handle :: "environment \<Rightarrow> handler \<Rightarrow> relay \<Rightarrow> relay" where
  "handle env EnsureRelayConnection st = fst (ensureRelayConnection env st)"
| "handle env ReconnectTimerFired st = reconnectTimerFired env st"
| "handle env (RelayClosed reason) st = onRelayClosed reason (randomDraw env) st"
| "handle env (Alarm alarmName) st = onAlarm alarmName env st"
| "handle env Startup st = startup env st"
| "handle env ActionClicked st = onActionClicked env st"
| "handle env (AutoAttachTab tabId tabUrl) st = autoAttachTab env tabId tabUrl st"
| "handle env AutoAttachAllTabs st = autoAttachAllTabs env st"
| "handle env (AttachTab tabId skipAttachedEvent) st =
     fst (attachTab env tabId skipAttachedEvent st)"
| "handle env (DetachTab tabId reason) st = detachTab tabId reason st"
| "handle env (DebuggerEvent sourceTab sourceSession method paramSession) st =
     onDebuggerEvent sourceTab sourceSession method paramSession st"
| "handle env (DebuggerDetach envs sourceTab reason) st =
     fst (onDebuggerDetach env envs sourceTab reason st)"
| "handle env (TabRemoved tabId) st = onRemoved tabId st"
| "handle env (TabReplaced addedTabId removedTabId) st = onReplaced addedTabId removedTabId st"

text \<open>
  A browser for the examples: auto-attach is on, no gateway token is stored, the relay
  is not reachable, two ordinary tabs 5 and 7 are open, the debugger attaches to every
  tab and reports the target id \<open>T\<close>, and every probe is answered.
\<close>

definition exampleBrowser :: environment where
  "exampleBrowser =
     \<lparr>autoAttachSetting = True, storedPort = Undefined, storedToken = Undefined,
      headProbe = Some ''TypeError: Failed to fetch'', wsOutcome = WsError,
      browserTabs = [\<lparr>bt_id = Some 5, bt_url = Some ''https://example.org/a''\<rparr>,
                     \<lparr>bt_id = Some 7, bt_url = Some ''https://example.org/b''\<rparr>],
      ownOptionsUrl = ''chrome-extension://abcdefgh/options.html'',
      tabInfoOf = (\<lambda>t. Some \<lparr>ti_url = Some ''https://example.org/'', ti_title = None\<rparr>),
      debuggerAttach = (\<lambda>t. None),
      targetInfoOf = (\<lambda>t. Inr (Some \<lparr>tg_targetId = Some ''T'', tg_url = None,
                                       tg_title = None\<rparr>)),
      evaluateOk = (\<lambda>t. True), clock = 0, randomDraw = Num (1 / 2)\<rparr>"

text \<open>
  A state for the examples: the relay socket is open, tab 5 was attached and got the
  session \<open>cb-tab-1\<close>, and its debugger reported the child session \<open>child-A\<close>.
\<close>

definition exampleAttached :: relay where
  "exampleAttached =
     onDebuggerEvent (Some 5) None ''Target.attachedToTarget'' (Some ''child-A'')
       (fst (attachTab exampleBrowser 5 False ((initial None)\<lparr>relayWs := Some OPEN\<rparr>)))"


section \<open>Verification\<close>

subsection \<open>Decimal rendering and parsing\<close>













subsection \<open>Frame lemmas: what the helpers leave unchanged\<close>

lemma trySend_fields [simp]:
  "tabs (trySend f st) = tabs st"
  "tabBySession (trySend f st) = tabBySession st"
  "childSessionToTab (trySend f st) = childSessionToTab st"
  "tabOperationLocks (trySend f st) = tabOperationLocks st"
  "reattachPending (trySend f st) = reattachPending st"
  "nextSession (trySend f st) = nextSession st"
  "reconnectAttempt (trySend f st) = reconnectAttempt st"
  "reconnectTimer (trySend f st) = reconnectTimer st"
  "relayWs (trySend f st) = relayWs st"
  "relayConnectPromise (trySend f st) = relayConnectPromise st"
  "storage (trySend f st) = storage st"
  "badge (trySend f st) = badge st"
  by (simp_all add: trySend_def sendToRelay_def)

lemma setBadge_fields [simp]:
  "tabs (setBadge t k st) = tabs st"
  "tabBySession (setBadge t k st) = tabBySession st"
  "childSessionToTab (setBadge t k st) = childSessionToTab st"
  "tabOperationLocks (setBadge t k st) = tabOperationLocks st"
  "reattachPending (setBadge t k st) = reattachPending st"
  "nextSession (setBadge t k st) = nextSession st"
  "reconnectAttempt (setBadge t k st) = reconnectAttempt st"
  "reconnectTimer (setBadge t k st) = reconnectTimer st"
  "relayWs (setBadge t k st) = relayWs st"
  "relayConnectPromise (setBadge t k st) = relayConnectPromise st"
  "storage (setBadge t k st) = storage st"
  "sent (setBadge t k st) = sent st"
  "badge (setBadge t k st) = (badge st)(t \<mapsto> k)"
  by (simp_all add: setBadge_def)

lemma persistState_fields [simp]:
  "tabs (persistState st) = tabs st"
  "tabBySession (persistState st) = tabBySession st"
  "childSessionToTab (persistState st) = childSessionToTab st"
  "tabOperationLocks (persistState st) = tabOperationLocks st"
  "reattachPending (persistState st) = reattachPending st"
  "nextSession (persistState st) = nextSession st"
  "reconnectAttempt (persistState st) = reconnectAttempt st"
  "reconnectTimer (persistState st) = reconnectTimer st"
  "relayWs (persistState st) = relayWs st"
  "relayConnectPromise (persistState st) = relayConnectPromise st"
  "badge (persistState st) = badge st"
  "sent (persistState st) = sent st"
  by (simp_all add: persistState_def split: option.split)

lemma notifyChildren_fields [simp]:
  "tabs (notifyChildren t es st) = tabs st"
  "tabBySession (notifyChildren t es st) = tabBySession st"
  "childSessionToTab (notifyChildren t es st) = childSessionToTab st"
  "tabOperationLocks (notifyChildren t es st) = tabOperationLocks st"
  "reattachPending (notifyChildren t es st) = reattachPending st"
  "nextSession (notifyChildren t es st) = nextSession st"
  "reconnectAttempt (notifyChildren t es st) = reconnectAttempt st"
  "reconnectTimer (notifyChildren t es st) = reconnectTimer st"
  "relayWs (notifyChildren t es st) = relayWs st"
  "relayConnectPromise (notifyChildren t es st) = relayConnectPromise st"
  "storage (notifyChildren t es st) = storage st"
  "badge (notifyChildren t es st) = badge st"
  by (induction es arbitrary: st, simp_all)

subsection \<open>Session names\<close>



lemma sessionName_truthy [simp]:
  "truthy (Some (sessionName k))" "str_or (Some (sessionName k)) d = sessionName k"
  "sessionName k \<noteq> []"
  by (simp_all add: truthy_def str_or_def sessionName_def)

subsection \<open>What attach and detach do to the tables\<close>

lemma attachTab_fails:
  "\<not> attachSucceeds env t \<Longrightarrow> fst (attachTab env t skip st) = st"
  "\<not> attachSucceeds env t \<Longrightarrow> \<exists>err. snd (attachTab env t skip st) = Inl err"
  by (auto simp: attachTab_def attachSucceeds_def split: option.splits sum.splits)


lemma attachTab_succeeds:
  assumes "attachSucceeds env t"
  shows "tabs (fst (attachTab env t skip st))
           = AList.update t (newTabSession env t (projr (targetInfoOf env t)) (nextSession st)) (tabs st)"
    and "tabBySession (fst (attachTab env t skip st))
           = AList.update (sessionName (nextSession st)) t (tabBySession st)"
    and "nextSession (fst (attachTab env t skip st)) = nextSession st + 1"
    and "fst (projr (snd (attachTab env t skip st))) = sessionName (nextSession st)"
  using assms
  by (auto simp: attachTab_def attachSucceeds_def Let_def split: option.splits sum.splits)

lemma newTabSession_fields [simp]:
  "sessionId (newTabSession env t ti sid) = Some (sessionName sid)"
  "state (newTabSession env t ti sid) = Connected"
  "targetId (newTabSession env t ti sid) = Some (reportedTargetId ti)"
  "attachOrder (newTabSession env t ti sid) = Some sid"
  by (simp_all add: newTabSession_def Let_def)

lemma attachTab_fields [simp]:
  "tabOperationLocks (fst (attachTab env t skip st)) = tabOperationLocks st"
  "reattachPending (fst (attachTab env t skip st)) = reattachPending st"
  "childSessionToTab (fst (attachTab env t skip st)) = childSessionToTab st"
  "reconnectAttempt (fst (attachTab env t skip st)) = reconnectAttempt st"
  "reconnectTimer (fst (attachTab env t skip st)) = reconnectTimer st"
  "relayWs (fst (attachTab env t skip st)) = relayWs st"
  "relayConnectPromise (fst (attachTab env t skip st)) = relayConnectPromise st"
  by (simp_all add: attachTab_def Let_def split: option.split sum.split)

lemma detachTab_tables:
  "tabs (detachTab t reason st) = AList.delete t (tabs st)"
  "tabBySession (detachTab t reason st) =
     (case map_of (tabs st) t of
        None \<Rightarrow> tabBySession st
      | Some tab \<Rightarrow> if truthy (sessionId tab)
                    then AList.delete (str_or (sessionId tab) []) (tabBySession st)
                    else tabBySession st)"
  "childSessionToTab (detachTab t reason st) = deleteChildrenOf t (childSessionToTab st)"
  by (simp_all add: detachTab_def Let_def truthy_def split: option.split)

lemma detachTab_fields [simp]:
  "tabOperationLocks (detachTab t reason st) = tabOperationLocks st"
  "reattachPending (detachTab t reason st) = reattachPending st"
  "nextSession (detachTab t reason st) = nextSession st"
  "reconnectAttempt (detachTab t reason st) = reconnectAttempt st"
  "reconnectTimer (detachTab t reason st) = reconnectTimer st"
  "relayWs (detachTab t reason st) = relayWs st"
  "relayConnectPromise (detachTab t reason st) = relayConnectPromise st"
  by (simp_all add: detachTab_def Let_def)

subsection \<open>The example browser and state\<close>

lemma sessionName_values:
  "sessionName 1 = ''cb-tab-1''" "sessionName (Suc 0) = ''cb-tab-1''"
  "sessionName 2 = ''cb-tab-2''" "sessionName (Suc (Suc 0)) = ''cb-tab-2''"
  "sessionName (Suc 1) = ''cb-tab-2''" "sessionName 3 = ''cb-tab-3''"
  by (simp_all add: sessionName_def dec.simps digit_char_def)

lemma exampleBrowser_attaches: "attachSucceeds exampleBrowser t"
  by (simp add: attachSucceeds_def exampleBrowser_def reportedTargetId_def trim_def str_or_def
      isWhiteSpace_def)

lemma exampleBrowser_target [simp]:
  "reportedTargetId (projr (targetInfoOf exampleBrowser t)) = ''T''"
  by (simp add: exampleBrowser_def reportedTargetId_def trim_def str_or_def isWhiteSpace_def)


lemma exampleBrowser_urls:
  "\<not> isSkippableUrl (Some ''https://example.org/a'')"
  "\<not> isSkippableUrl (Some ''https://example.org/b'')"
  by (simp_all add: isSkippableUrl_def)

lemma missing_token_not_retryable: "\<not> isRetryableReconnectError missingTokenMessage"
  by (simp add: isRetryableReconnectError_def missingTokenMessage_def)

lemma exampleBrowser_connect:
  "connectAttempt exampleBrowser st = (st, Some missingTokenMessage)"
  by (simp add: connectAttempt_def exampleBrowser_def buildRelayWsUrl_def String_or_empty_def
      trim_def)

lemma first_delay:
  "reconnectDelayMs (Num (real 0)) defaultOptions (Num (1 / 2)) = Num 1500"
  "reconnectDelayMs (Num 0) defaultOptions (Num (1 / 2)) = Num 1500"
  by (simp_all add: reconnectDelayMs_def backoffMs_def defaultOptions_def finiteOr_def isFinite_def
      overflow_def double_limit_def)

subsection \<open>Consistency of the session indices\<close>













subsection \<open>Reattach after an involuntary detach\<close>
















subsection \<open>Auto-attach and the pending reattach\<close>

lemma autoAttachTab_suppressed:
  "tabId \<in> reattachPending st \<Longrightarrow> autoAttachTab env tabId tabUrl st = st"
  by (simp add: autoAttachTab_def)

text \<open>
  Claim C3 at the failing input: tab 7 is in \<open>reattachPending\<close> (its retry loop is
  waiting) and has no entry in \<open>tabs\<close>.  \<open>autoAttachTab\<close> leaves the state as it is,
  but \<open>autoAttachAllTabs\<close> never reads \<open>reattachPending\<close>: the sweep attaches tab 7
  under a new session while the tab is still pending.
\<close>

theorem attach_all_ignores_pending_reattach:
  "7 \<in> reattachPending ((initial None)\<lparr>reattachPending := {7}\<rparr>)
   \<and> autoAttachTab exampleBrowser 7 (Some ''https://example.org/b'')
        ((initial None)\<lparr>reattachPending := {7}\<rparr>) = (initial None)\<lparr>reattachPending := {7}\<rparr>
   \<and> tabBySession (autoAttachAllTabs exampleBrowser ((initial None)\<lparr>reattachPending := {7}\<rparr>))
       = [(''cb-tab-1'', 5), (''cb-tab-2'', 7)]
   \<and> has (tabs (autoAttachAllTabs exampleBrowser ((initial None)\<lparr>reattachPending := {7}\<rparr>))) 7
   \<and> 7 \<in> reattachPending (autoAttachAllTabs exampleBrowser
             ((initial None)\<lparr>reattachPending := {7}\<rparr>))"
proof -
  let ?st = "(initial None)\<lparr>reattachPending := {7}\<rparr>"
  have a: "autoAttachTab exampleBrowser 7 (Some ''https://example.org/b'') ?st = ?st"
    by (rule autoAttachTab_suppressed) simp
  have b: "browserTabs exampleBrowser = [\<lparr>bt_id = Some 5, bt_url = Some ''https://example.org/a''\<rparr>,
                     \<lparr>bt_id = Some 7, bt_url = Some ''https://example.org/b''\<rparr>]"
    "autoAttachSetting exampleBrowser" "ownOptionsUrl exampleBrowser = ''chrome-extension://abcdefgh/options.html''"
    by (simp_all add: exampleBrowser_def)
  have c: "tabBySession (autoAttachAllTabs exampleBrowser ?st) = [(''cb-tab-1'', 5), (''cb-tab-2'', 7)]"
    "has (tabs (autoAttachAllTabs exampleBrowser ?st)) 7"
    "reattachPending (autoAttachAllTabs exampleBrowser ?st) = {7}"
    by (simp_all add: autoAttachAllTabs_def b initial_def has_def exampleBrowser_urls Let_def
        attachTab_succeeds [OF exampleBrowser_attaches] update_conv' sessionName_values)
  show ?thesis using a c by simp
qed

subsection \<open>The backoff counter\<close>

lemma detachAll_connection [simp]:
  "reconnectAttempt (detachAll ts s) = reconnectAttempt s"
  "relayWs (detachAll ts s) = relayWs s"
  by (induction ts arbitrary: s, simp_all)

lemma reannounceLoop_connection [simp]:
  "reconnectAttempt (reannounceLoop env es s) = reconnectAttempt s"
  "relayWs (reannounceLoop env es s) = relayWs s"
  by (induction es arbitrary: s, simp_all add: Let_def split: sum.split)

lemma reannounce_connection [simp]:
  "reconnectAttempt (reannounceAttachedTabs env s) = reconnectAttempt s"
  "relayWs (reannounceAttachedTabs env s) = relayWs s"
  by (simp_all add: reannounceAttachedTabs_def)

lemma rehydrateFill_connection [simp]:
  "reconnectAttempt (rehydrateFill es s) = reconnectAttempt s"
  "relayWs (rehydrateFill es s) = relayWs s"
  by (induction es arbitrary: s, simp_all)

lemma rehydrateProbe_connection [simp]:
  "reconnectAttempt (rehydrateProbe env es s) = reconnectAttempt s"
  "relayWs (rehydrateProbe env es s) = relayWs s"
  by (induction es arbitrary: s, simp_all)

lemma rehydrateState_connection [simp]:
  "reconnectAttempt (rehydrateState env s) = reconnectAttempt s"
  "relayWs (rehydrateState env s) = relayWs s"
  by (simp_all add: rehydrateState_def Let_def split: option.split)

lemma autoAttachLoop_connection [simp]:
  "reconnectAttempt (autoAttachLoop env ts s) = reconnectAttempt s"
  "relayWs (autoAttachLoop env ts s) = relayWs s"
  by (induction ts arbitrary: s, simp_all add: Let_def split: option.split)

lemma autoAttachAllTabs_connection [simp]:
  "reconnectAttempt (autoAttachAllTabs env s) = reconnectAttempt s"
  "relayWs (autoAttachAllTabs env s) = relayWs s"
  by (simp_all add: autoAttachAllTabs_def)

lemma onDebuggerEvent_connection [simp]:
  "reconnectAttempt (onDebuggerEvent a b m p s) = reconnectAttempt s"
  "relayWs (onDebuggerEvent a b m p s) = relayWs s"
  by (simp_all add: onDebuggerEvent_def Let_def split: option.split)

lemma onRemoved_connection [simp]:
  "reconnectAttempt (onRemoved t s) = reconnectAttempt s"
  "relayWs (onRemoved t s) = relayWs s"
  by (simp_all add: onRemoved_def Let_def)

lemma onReplaced_connection [simp]:
  "reconnectAttempt (onReplaced a r s) = reconnectAttempt s"
  "relayWs (onReplaced a r s) = relayWs s"
  by (simp_all add: onReplaced_def Let_def split: option.split)

lemma badgeConnecting_connection [simp]:
  "reconnectAttempt (badgeConnecting es s) = reconnectAttempt s"
  "relayWs (badgeConnecting es s) = relayWs s"
  by (induction es arbitrary: s, simp_all)

lemma reattachLoop_connection [simp]:
  "reconnectAttempt (fst (reattachLoop envs t ds a s)) = reconnectAttempt s"
  "relayWs (fst (reattachLoop envs t ds a s)) = relayWs s"
  by (induction ds arbitrary: a s, simp_all add: Let_def split: sum.split)

lemma onDebuggerDetach_connection [simp]:
  "reconnectAttempt (fst (onDebuggerDetach env envs src reason s)) = reconnectAttempt s"
  "relayWs (fst (onDebuggerDetach env envs src reason s)) = relayWs s"
  by (simp_all add: onDebuggerDetach_def Let_def split: option.split)

lemma connectAttempt_connection:
  "reconnectAttempt (fst (connectAttempt env s)) = reconnectAttempt s"
  "snd (connectAttempt env s) = None \<Longrightarrow> relayWs (fst (connectAttempt env s)) = Some OPEN"
  "snd (connectAttempt env s) = Some e \<Longrightarrow> relayWs s \<noteq> Some OPEN \<Longrightarrow>
     relayWs (fst (connectAttempt env s)) \<noteq> Some OPEN"
  by (auto simp: connectAttempt_def Let_def split: sum.splits option.splits ws_outcome.splits)

lemma awaitConnect_connection:
  "snd (awaitConnect env s) = None \<Longrightarrow>
     relayWs (fst (awaitConnect env s)) = Some OPEN \<and> reconnectAttempt (fst (awaitConnect env s)) = 0"
  "snd (awaitConnect env s) = Some e \<Longrightarrow>
     reconnectAttempt (fst (awaitConnect env s)) = reconnectAttempt s"
  "snd (awaitConnect env s) = Some e \<Longrightarrow> relayWs s \<noteq> Some OPEN \<Longrightarrow>
     relayWs (fst (awaitConnect env s)) \<noteq> Some OPEN"
proof -
  obtain s1 r where c: "connectAttempt env s = (s1, r)" by (cases "connectAttempt env s")
  have f: "reconnectAttempt s1 = reconnectAttempt s"
    using connectAttempt_connection(1) [of env s] c by simp
  have o: "r = None \<Longrightarrow> relayWs s1 = Some OPEN"
    using connectAttempt_connection(2) [of env s] c by simp
  have n: "\<And>x. r = Some x \<Longrightarrow> relayWs s \<noteq> Some OPEN \<Longrightarrow> relayWs s1 \<noteq> Some OPEN"
    using connectAttempt_connection(3) [of env s] c by simp
  show "snd (awaitConnect env s) = None \<Longrightarrow>
     relayWs (fst (awaitConnect env s)) = Some OPEN \<and> reconnectAttempt (fst (awaitConnect env s)) = 0"
    using o by (cases r) (simp_all add: awaitConnect_def c)
  show "snd (awaitConnect env s) = Some e \<Longrightarrow>
     reconnectAttempt (fst (awaitConnect env s)) = reconnectAttempt s"
    using f by (cases r) (simp_all add: awaitConnect_def c)
  show "snd (awaitConnect env s) = Some e \<Longrightarrow> relayWs s \<noteq> Some OPEN \<Longrightarrow>
     relayWs (fst (awaitConnect env s)) \<noteq> Some OPEN"
    using n by (cases r) (simp_all add: awaitConnect_def c)
qed

lemma ensure_ok:
  "snd (ensureRelayConnection env s) = None \<Longrightarrow>
     relayWs (fst (ensureRelayConnection env s)) = Some OPEN"
  using awaitConnect_connection(1) [of env s]
    awaitConnect_connection(1) [of env "s\<lparr>relayConnectPromise := True\<rparr>"]
  by (simp add: ensureRelayConnection_def split: if_splits)

lemma ensure_failed:
  "snd (ensureRelayConnection env s) = Some e \<Longrightarrow>
     reconnectAttempt (fst (ensureRelayConnection env s)) = reconnectAttempt s
     \<and> relayWs (fst (ensureRelayConnection env s)) \<noteq> Some OPEN"
  using awaitConnect_connection(2,3) [of env s e]
    awaitConnect_connection(2,3) [of env "s\<lparr>relayConnectPromise := True\<rparr>" e]
  by (simp add: ensureRelayConnection_def split: if_splits)

lemma ensure_reset: "resetOnlyConnected s (fst (ensureRelayConnection env s))"
proof (cases "snd (ensureRelayConnection env s)")
  case None
  from ensure_ok [OF this] show ?thesis by (simp add: resetOnlyConnected_def)
next
  case (Some e)
  from ensure_failed [OF this] show ?thesis
    by (auto simp: resetOnlyConnected_def ensureRelayConnection_def split: if_splits)
qed

lemma scheduleReconnect_connection [simp]:
  "reconnectAttempt (scheduleReconnect r s) = reconnectAttempt s + 1"
  "relayWs (scheduleReconnect r s) = relayWs s"
  by (simp_all add: scheduleReconnect_def Let_def)

lemma resetOnlyConnected_refl [simp]: "resetOnlyConnected s s"
  by (simp add: resetOnlyConnected_def)

lemma resetOnlyConnected_trans:
  "resetOnlyConnected a b \<Longrightarrow> resetOnlyConnected b c \<Longrightarrow> resetOnlyConnected a c"
  by (auto simp: resetOnlyConnected_def)

lemma resetOnlyConnected_same:
  "reconnectAttempt b = reconnectAttempt a \<Longrightarrow> relayWs b = relayWs a \<Longrightarrow> resetOnlyConnected s a \<Longrightarrow>
   resetOnlyConnected s b"
  by (simp add: resetOnlyConnected_def)

lemma schedule_reset: "resetOnlyConnected s (scheduleReconnect r s)"
  by (simp add: resetOnlyConnected_def)

lemma autoAttachTab_reset: "resetOnlyConnected s (autoAttachTab env t u s)"
proof (cases "ensureRelayConnection env s")
  case (Pair s1 r)
  have e: "resetOnlyConnected s s1" using ensure_reset [of s env] Pair by simp
  show ?thesis
    using e by (cases r) (auto simp: autoAttachTab_def Pair Let_def intro: resetOnlyConnected_same)
qed

lemma autoAttachEach_reset: "resetOnlyConnected s (autoAttachEach env ts s)"
proof (induction ts arbitrary: s)
  case Nil
  show ?case by simp
next
  case (Cons t ts)
  have "resetOnlyConnected s (case bt_id t of None \<Rightarrow> s | Some tid \<Rightarrow> autoAttachTab env tid (bt_url t) s)"
    by (simp add: autoAttachTab_reset split: option.split)
  from resetOnlyConnected_trans [OF this Cons] show ?case by simp
qed

lemma timer_reset: "resetOnlyConnected s (reconnectTimerFired env s)"
proof (cases "ensureRelayConnection env (s\<lparr>reconnectTimer := None\<rparr>)")
  case (Pair s1 r)
  have e: "resetOnlyConnected (s\<lparr>reconnectTimer := None\<rparr>) s1"
    using ensure_reset [of "s\<lparr>reconnectTimer := None\<rparr>" env] Pair by simp
  show ?thesis
  proof (cases r)
    case None
    have "relayWs s1 = Some OPEN"
      using ensure_ok [of env "s\<lparr>reconnectTimer := None\<rparr>"] Pair None by simp
    then show ?thesis by (simp add: reconnectTimerFired_def Pair None resetOnlyConnected_def)
  next
    case (Some err)
    then show ?thesis using e
      by (simp add: reconnectTimerFired_def Pair resetOnlyConnected_def)
  qed
qed

lemma alarm_reset: "resetOnlyConnected s (onAlarm name env s)"
proof (cases "name = ''relay-keepalive''")
  case False
  then show ?thesis by (simp add: onAlarm_def)
next
  case True
  define s1 where "s1 = (if relayWs s \<noteq> Some OPEN
                    then if \<not> relayConnectPromise s \<and> reconnectTimer s = None
                         then (case ensureRelayConnection env s of
                                 (x, None) \<Rightarrow> x
                               | (x, Some err) \<Rightarrow>
                                   if reconnectTimer x = None
                                   then scheduleReconnect (randomDraw env) x else x)
                         else s
                    else s)"
  have a: "resetOnlyConnected s s1"
  proof (cases "ensureRelayConnection env s")
    case (Pair x r)
    have e: "resetOnlyConnected s x" using ensure_reset [of s env] Pair by simp
    have "resetOnlyConnected s (scheduleReconnect (randomDraw env) x)"
      by (rule resetOnlyConnected_trans [OF e schedule_reset])
    then show ?thesis using e by (cases r) (simp_all add: s1_def Pair)
  qed
  have "\<And>ts. resetOnlyConnected s (autoAttachEach env ts s1)"
    by (rule resetOnlyConnected_trans [OF a autoAttachEach_reset])
  then show ?thesis using True by (simp add: onAlarm_def s1_def Let_def)
qed

lemma startup_reset: "resetOnlyConnected s (startup env s)"
proof (cases "ensureRelayConnection env (rehydrateState env s)")
  case (Pair s1 r)
  have e: "resetOnlyConnected (rehydrateState env s) s1"
    using ensure_reset [of "rehydrateState env s" env] Pair by simp
  then have e': "resetOnlyConnected s s1" by (simp add: resetOnlyConnected_def)
  show ?thesis
  proof (cases r)
    case None
    have "relayWs s1 = Some OPEN"
      using ensure_ok [of env "rehydrateState env s"] Pair None by simp
    then show ?thesis by (simp add: startup_def Pair None resetOnlyConnected_def Let_def)
  next
    case (Some err)
    then show ?thesis using e'
      by (simp add: startup_def Pair resetOnlyConnected_def Let_def)
  qed
qed

lemma handle_reset:
  "h \<noteq> ActionClicked \<Longrightarrow> (\<forall>reason. h \<noteq> RelayClosed reason) \<Longrightarrow>
   resetOnlyConnected st (handle env h st)"
  by (cases h)
    (simp_all add: ensure_reset timer_reset alarm_reset startup_reset autoAttachTab_reset,
     simp_all add: resetOnlyConnected_def)

lemma relayClosed_counter: "reconnectAttempt (onRelayClosed reason r st) \<noteq> 0"
  by (simp add: onRelayClosed_def)

lemma actionClicked_counter:
  "filter (\<lambda>e. state (snd e) = Connected) (tabs st) = [] \<Longrightarrow>
   reconnectAttempt (onActionClicked env st) = 0"
proof -
  assume a: "filter (\<lambda>e. state (snd e) = Connected) (tabs st) = []"
  obtain s1 r where p: "ensureRelayConnection env (cancelReconnect st) = (s1, r)"
    by (cases "ensureRelayConnection env (cancelReconnect st)")
  have c: "reconnectAttempt (cancelReconnect st) = 0" by (simp add: cancelReconnect_def)
  have "reconnectAttempt s1 = 0"
  proof (cases r)
    case None
    then have "snd (ensureRelayConnection env (cancelReconnect st)) = None" using p by simp
    then show ?thesis
      using p c awaitConnect_connection(1) [of env "cancelReconnect st"]
        awaitConnect_connection(1) [of env "(cancelReconnect st)\<lparr>relayConnectPromise := True\<rparr>"]
      by (simp add: ensureRelayConnection_def split: if_splits)
  next
    case (Some e)
    then have "snd (ensureRelayConnection env (cancelReconnect st)) = Some e" using p by simp
    from ensure_failed [OF this] show ?thesis using p c by simp
  qed
  then show ?thesis using a by (cases r) (simp_all add: onActionClicked_def p Let_def)
qed

lemma actionClicked_detach:
  "filter (\<lambda>e. state (snd e) = Connected) (tabs st) \<noteq> [] \<Longrightarrow>
   reconnectAttempt (onActionClicked env st) = reconnectAttempt st
   \<and> relayWs (onActionClicked env st) = relayWs st"
  by (simp add: onActionClicked_def Let_def)

text \<open>
  Claim C4, as amended.  A handler other than the click on the toolbar action leaves the
  backoff counter at zero, when it was not zero before, only with the relay socket open:
  the reset follows a successful \<open>ensureRelayConnection\<close>.  The click on the toolbar
  action is the exception: with no tab connected it calls \<open>cancelReconnect\<close>, which
  sets the counter to zero before any connection is attempted, and the counter is zero
  afterwards whatever the attempt gives; with a tab connected it detaches the tabs and
  leaves the counter as it was.
\<close>

theorem backoff_counter_reset:
  "(h \<noteq> ActionClicked \<and> reconnectAttempt (handle env h st) = 0 \<and> reconnectAttempt st \<noteq> 0 \<longrightarrow>
      relayWs (handle env h st) = Some OPEN)
   \<and> (filter (\<lambda>e. state (snd e) = Connected) (tabs st) \<noteq> [] \<longrightarrow>
      reconnectAttempt (handle env ActionClicked st) = reconnectAttempt st)
   \<and> (filter (\<lambda>e. state (snd e) = Connected) (tabs st) = [] \<longrightarrow>
      reconnectAttempt (handle env ActionClicked st) = 0)"
proof (intro conjI impI)
  assume a: "h \<noteq> ActionClicked \<and> reconnectAttempt (handle env h st) = 0 \<and> reconnectAttempt st \<noteq> 0"
  show "relayWs (handle env h st) = Some OPEN"
  proof (cases "\<exists>reason. h = RelayClosed reason")
    case True
    then obtain reason where "h = RelayClosed reason" by blast
    then have "reconnectAttempt (handle env h st) \<noteq> 0" by (simp add: relayClosed_counter)
    with a show ?thesis by simp
  next
    case False
    with a have "resetOnlyConnected st (handle env h st)" by (simp add: handle_reset)
    with a show ?thesis by (simp add: resetOnlyConnected_def)
  qed
next
  assume "filter (\<lambda>e. state (snd e) = Connected) (tabs st) \<noteq> []"
  then show "reconnectAttempt (handle env ActionClicked st) = reconnectAttempt st"
    by (simp add: actionClicked_detach)
next
  assume "filter (\<lambda>e. state (snd e) = Connected) (tabs st) = []"
  then show "reconnectAttempt (handle env ActionClicked st) = 0"
    by (simp add: actionClicked_counter)
qed

theorem backoff_counter_reset_witness:
  "reconnectAttempt ((initial None)\<lparr>reconnectAttempt := 3\<rparr>) \<noteq> 0
   \<and> reconnectAttempt (handle
        (exampleBrowser\<lparr>storedToken := JsString ''secret'', headProbe := None,
                        wsOutcome := WsOpened\<rparr>)
        ReconnectTimerFired ((initial None)\<lparr>reconnectAttempt := 3\<rparr>)) = 0
   \<and> relayWs (handle
        (exampleBrowser\<lparr>storedToken := JsString ''secret'', headProbe := None,
                        wsOutcome := WsOpened\<rparr>)
        ReconnectTimerFired ((initial None)\<lparr>reconnectAttempt := 3\<rparr>)) = Some OPEN
   \<and> reconnectAttempt (handle exampleBrowser ReconnectTimerFired
        ((initial None)\<lparr>reconnectAttempt := 3\<rparr>)) = 3
   \<and> reconnectAttempt (handle exampleBrowser ActionClicked
        ((initial None)\<lparr>reconnectAttempt := 3\<rparr>)) = 0
   \<and> reconnectAttempt (handle exampleBrowser ActionClicked
        (exampleAttached\<lparr>reconnectAttempt := 3\<rparr>)) = 3"
proof -
  let ?ok = "exampleBrowser\<lparr>storedToken := JsString ''secret'', headProbe := None,
                        wsOutcome := WsOpened\<rparr>"
  let ?S = "(initial None)\<lparr>reconnectAttempt := 3\<rparr>"
  have c: "\<And>st. connectAttempt ?ok st = (st\<lparr>relayWs := Some OPEN\<rparr>, None)"
    by (simp add: connectAttempt_def buildRelayWsUrl_def String_or_empty_def trim_def
        isWhiteSpace_def exampleBrowser_def)
  have n: "reconnectAttempt ?S \<noteq> 0" by simp
  have z: "reconnectAttempt (handle ?ok ReconnectTimerFired ?S) = 0"
    by (simp add: reconnectTimerFired_def ensureRelayConnection_def awaitConnect_def c initial_def)
  have f: "reconnectAttempt (handle exampleBrowser ReconnectTimerFired ?S) = 3"
    by (simp add: reconnectTimerFired_def ensureRelayConnection_def awaitConnect_def
        exampleBrowser_connect initial_def missing_token_not_retryable)
  have e: "filter (\<lambda>e. state (snd e) = Connected) (tabs ?S) = []" by (simp add: initial_def)
  have t: "filter (\<lambda>e. state (snd e) = Connected) (tabs (exampleAttached\<lparr>reconnectAttempt := 3\<rparr>)) \<noteq> []"
    by (simp add: exampleAttached_def onDebuggerEvent_def
      attachTab_succeeds [OF exampleBrowser_attaches] initial_def update_conv' Let_def truthy_def
      str_or_def sessionName_values)
  from backoff_counter_reset [of ReconnectTimerFired ?ok ?S] n z
  have o: "relayWs (handle ?ok ReconnectTimerFired ?S) = Some OPEN" by simp
  from backoff_counter_reset [of ReconnectTimerFired exampleBrowser ?S] e
  have a: "reconnectAttempt (handle exampleBrowser ActionClicked ?S) = 0" by blast
  from backoff_counter_reset [of ReconnectTimerFired exampleBrowser "exampleAttached\<lparr>reconnectAttempt := 3\<rparr>"] t
  have d: "reconnectAttempt (handle exampleBrowser ActionClicked (exampleAttached\<lparr>reconnectAttempt := 3\<rparr>)) = 3"
    by simp
  show ?thesis using n z o f a d by blast
qed

text \<open>
  Claim C4 as stated fails: the counter is at 3, no tab is attached, the relay is not
  reachable, and the user clicks the toolbar action.  \<open>cancelReconnect\<close> resets the
  counter, the connection attempt fails, and the counter stays at zero with no socket.
\<close>

theorem action_click_resets_without_connection:
  "reconnectAttempt ((initial None)\<lparr>reconnectAttempt := 3\<rparr>) = 3
   \<and> reconnectAttempt (handle (exampleBrowser\<lparr>storedToken := JsString ''secret''\<rparr>) ActionClicked
        ((initial None)\<lparr>reconnectAttempt := 3\<rparr>)) = 0
   \<and> relayWs (handle (exampleBrowser\<lparr>storedToken := JsString ''secret''\<rparr>) ActionClicked
        ((initial None)\<lparr>reconnectAttempt := 3\<rparr>)) = None
   \<and> (\<exists>err. snd (ensureRelayConnection (exampleBrowser\<lparr>storedToken := JsString ''secret''\<rparr>)
        (cancelReconnect ((initial None)\<lparr>reconnectAttempt := 3\<rparr>))) = Some err)
   \<and> reconnectAttempt (cancelReconnect ((initial None)\<lparr>reconnectAttempt := 3\<rparr>)) = 0"
proof -
  let ?env = "exampleBrowser\<lparr>storedToken := JsString ''secret''\<rparr>"
  have c: "\<And>st. \<exists>err. connectAttempt ?env st = (st, Some err)"
    by (simp add: connectAttempt_def buildRelayWsUrl_def String_or_empty_def trim_def
        isWhiteSpace_def exampleBrowser_def)
  then obtain err where e: "\<And>st. connectAttempt ?env st = (st, Some (err st))" by metis
  show ?thesis
    by (simp add: onActionClicked_def cancelReconnect_def ensureRelayConnection_def
        awaitConnect_def e initial_def)
qed

subsection \<open>Command routing\<close>












subsection \<open>Persistence and rehydration\<close>


lemma rehydrateFill_nextSession [simp]:
  "nextSession (rehydrateFill es st) = nextSession st"
  by (induction es arbitrary: st) simp_all

lemma rehydrateProbe_nextSession [simp]:
  "nextSession (rehydrateProbe env es st) = nextSession st"
  by (induction es arbitrary: st) simp_all









lemma persistable_newTabSession:
  "attachSucceeds env t \<Longrightarrow> persistable (newTabSession env t (projr (targetInfoOf env t)) sid)"
  by (auto simp: persistable_def attachSucceeds_def truthy_def split: sum.splits)

lemma list_all_update:
  "list_all P al \<Longrightarrow> P (k, v) \<Longrightarrow> list_all P (AList.update k v al)"
  by (induction al) auto

lemma list_all_delete: "list_all P al \<Longrightarrow> list_all P (AList.delete k al)"
  by (induction al) auto

lemma persistable_attach:
  "list_all (\<lambda>e. persistable (snd e)) (tabs st) \<Longrightarrow>
   list_all (\<lambda>e. persistable (snd e)) (tabs (fst (attachTab env t skip st)))"
  by (cases "attachSucceeds env t")
    (simp_all add: attachTab_fails attachTab_succeeds list_all_update persistable_newTabSession)

lemma persistable_detach:
  "list_all (\<lambda>e. persistable (snd e)) (tabs st) \<Longrightarrow>
   list_all (\<lambda>e. persistable (snd e)) (tabs (detachTab t reason st))"
  by (simp add: detachTab_tables list_all_delete)

lemma persistable_run:
  "list_all (\<lambda>e. persistable (snd e)) (tabs st) \<Longrightarrow>
   list_all (\<lambda>e. persistable (snd e)) (tabs (run ops st))"
proof (induction ops arbitrary: st)
  case Nil
  then show ?case by simp
next
  case (Cons x xs)
  then show ?case by (cases x) (simp_all add: persistable_attach persistable_detach)
qed


subsection \<open>Reconnect delay\<close>











subsection \<open>Child sessions\<close>

lemma detachTab_removes_children:
  "tabId \<notin> snd ` set (childSessionToTab (detachTab tabId reason st))"
  by (auto simp: detachTab_tables deleteChildrenOf_def)

lemma onRemoved_removes_children:
  "has (tabs st) tabId \<Longrightarrow> tabId \<notin> snd ` set (childSessionToTab (onRemoved tabId st))"
  by (auto simp: onRemoved_def Let_def deleteChildrenOf_def)

text \<open>
  Claim C8 at the failing input: the relay reconnects while tab 5 holds the session
  \<open>cb-tab-1\<close> and the child session \<open>child-A\<close>, and the liveness probe of the
  re-announcement fails.  \<open>reannounceAttachedTabs\<close> removes the tab and its session, but
  the child session still points at tab 5, and a command that names it is still routed
  to tab 5.  \<open>detachTab\<close> and the \<open>onRemoved\<close> listener remove the children.
\<close>

theorem reannounce_prune_keeps_children:
  "tabs (reannounceAttachedTabs (exampleBrowser\<lparr>evaluateOk := (\<lambda>t. False)\<rparr>) exampleAttached) = []
   \<and> tabBySession (reannounceAttachedTabs (exampleBrowser\<lparr>evaluateOk := (\<lambda>t. False)\<rparr>)
        exampleAttached) = []
   \<and> childSessionToTab (reannounceAttachedTabs (exampleBrowser\<lparr>evaluateOk := (\<lambda>t. False)\<rparr>)
        exampleAttached) = [(''child-A'', 5)]
   \<and> resolveTabId \<lparr>cmd_method = Some ''Page.navigate'', cmd_sessionId = Some ''child-A'',
         cmd_targetId = None, cmd_url = None\<rparr>
        (reannounceAttachedTabs (exampleBrowser\<lparr>evaluateOk := (\<lambda>t. False)\<rparr>) exampleAttached)
       = Some 5"
  by (simp add: reannounceAttachedTabs_def exampleAttached_def onDebuggerEvent_def
      attachTab_succeeds [OF exampleBrowser_attaches] initial_def update_conv' Let_def truthy_def
      str_or_def sessionName_values resolveTabId_def getTabBySessionId_def)

subsection \<open>Missing gateway token\<close>

text \<open>
  Claim C9 at the failing input: no gateway token is stored, the relay is down, no timer
  is armed.  The connection attempt fails with the error that
  \<open>isRetryableReconnectError\<close> rejects; the callback of the reconnect timer stops
  there, but the keepalive alarm and the start-up chain call \<open>scheduleReconnect\<close>
  without looking at the error, and the timer is armed again.
\<close>

theorem alarm_rearms_after_missing_token:
  "snd (ensureRelayConnection exampleBrowser (initial None)) = Some missingTokenMessage
   \<and> \<not> isRetryableReconnectError missingTokenMessage
   \<and> reconnectTimer (initial None) = None
   \<and> reconnectTimer (onAlarm ''relay-keepalive'' exampleBrowser (initial None)) = Some (Num 1500)
   \<and> reconnectTimer (startup exampleBrowser (initial None)) = Some (Num 1500)
   \<and> reconnectTimer (reconnectTimerFired exampleBrowser
        (onAlarm ''relay-keepalive'' exampleBrowser (initial None))) = None"
proof -
  have e: "\<And>st. relayWs st \<noteq> Some OPEN \<Longrightarrow>
     ensureRelayConnection exampleBrowser st = (st\<lparr>relayConnectPromise := False\<rparr>, Some missingTokenMessage)"
    by (simp add: ensureRelayConnection_def awaitConnect_def exampleBrowser_connect)
  have i: "relayWs (initial None) = None" "reconnectTimer (initial None) = None"
    "\<not> relayConnectPromise (initial None)" "tabs (initial None) = []"
    "reattachPending (initial None) = {}" "tabOperationLocks (initial None) = {}"
    "reconnectAttempt (initial None) = 0" "storage (initial None) = None"
    by (simp_all add: initial_def)
  have b: "browserTabs exampleBrowser = [\<lparr>bt_id = Some 5, bt_url = Some ''https://example.org/a''\<rparr>,
                     \<lparr>bt_id = Some 7, bt_url = Some ''https://example.org/b''\<rparr>]"
    "autoAttachSetting exampleBrowser" "ownOptionsUrl exampleBrowser = ''chrome-extension://abcdefgh/options.html''"
    "randomDraw exampleBrowser = Num (1 / 2)"
    by (simp_all add: exampleBrowser_def)
  have 1: "snd (ensureRelayConnection exampleBrowser (initial None)) = Some missingTokenMessage"
    by (simp add: e i)
  have 2: "reconnectTimer (onAlarm ''relay-keepalive'' exampleBrowser (initial None)) = Some (Num 1500)"
    by (simp add: onAlarm_def e i b has_def exampleBrowser_urls autoAttachTab_def
        scheduleReconnect_def first_delay Let_def)
  have 3: "reconnectTimer (startup exampleBrowser (initial None)) = Some (Num 1500)"
    by (simp add: startup_def rehydrateState_def e i b has_def exampleBrowser_urls
        autoAttachAllTabs_def scheduleReconnect_def first_delay Let_def
        attachTab_succeeds [OF exampleBrowser_attaches])
  have 4: "reconnectTimer (reconnectTimerFired exampleBrowser
        (onAlarm ''relay-keepalive'' exampleBrowser (initial None))) = None"
    by (simp add: reconnectTimerFired_def onAlarm_def e i b has_def exampleBrowser_urls
        autoAttachTab_def scheduleReconnect_def first_delay Let_def missing_token_not_retryable)
  show ?thesis using 1 2 3 4 missing_token_not_retryable i(2) by simp
qed

subsection \<open>Relay port\<close>







end
